theory Spec2Isabelle
  imports Complex_Main
begin

section \<open>The float64 values of the program\<close>

text \<open>
  Every number of the package is a Go \<^verbatim>\<open>float64\<close>, an IEEE 754 binary64 value. The
  model keeps the values of that format: a NaN, the two infinities, the two zeros and
  the finite non-zero numbers, each finite number carried as the rational it denotes
  (\<open>Finite r\<close> stands for a non-zero \<open>r\<close> the format has; the properties below hold
  whatever \<open>r\<close> is).
  The flag of \<open>Infinity\<close> and \<open>Zero\<close> is the sign bit (\<open>True\<close> for negative).
  The payload bits of a NaN are not kept: the package never reads them.
  Each operation rounds its own result to nearest, ties to even, the rounding Go uses;
  a multiplication and an addition fused into one rounding, which a Go compiler may emit
  on some platforms, is not modelled.
\<close>

datatype float64 = NaN | Infinity bool | Zero bool | Finite rat

definition isNaN :: "float64 \<Rightarrow> bool" where
  "isNaN x = (x = NaN)"

definition isInf :: "float64 \<Rightarrow> bool" where
  "isInf x = (x = Infinity False \<or> x = Infinity True)"

fun signbit :: "float64 \<Rightarrow> bool" where
  "signbit NaN = False"
| "signbit (Infinity s) = s"
| "signbit (Zero s) = s"
| "signbit (Finite r) = (r < 0)"

subsection \<open>Rounding to nearest, ties to even\<close>

text \<open>The number of bits of a positive integer; 0 for the others.\<close>

function bitlen :: "int \<Rightarrow> int" where
  "bitlen n = (if n \<le> 0 then 0 else 1 + bitlen (n div 2))"
  by auto
termination
  by (relation "measure nat") auto

declare bitlen.simps [simp del]

definition pow2 :: "int \<Rightarrow> rat" where
  "pow2 e = (if 0 \<le> e then 2 ^ nat e else 1 / 2 ^ nat (- e))"

text \<open>For a positive rational \<open>a\<close>, the exponent \<open>e\<close> with \<open>2^e \<le> a < 2^(e+1)\<close>.\<close>

definition ilog2 :: "rat \<Rightarrow> int" where
  "ilog2 a = (case quotient_of a of (n, d) \<Rightarrow>
     (let e = bitlen n - bitlen d
      in if pow2 e \<le> a then e else e - 1))"

definition round_half_even :: "rat \<Rightarrow> int" where
  "round_half_even q = (let f = \<lfloor>q\<rfloor>; d = q - of_int f in
     if d < 1 / 2 then f else if 1 / 2 < d then f + 1 else if even f then f else f + 1)"

text \<open>
  The binary64 value nearest to a rational: 53 significant bits, the smallest exponent
  -1022 (below it the spacing stays \<open>2^-1074\<close>, the subnormal numbers), a tie goes to the
  even significand, a result of magnitude \<open>2^1024\<close> or more is an infinity, and a result
  rounded to nothing is a zero of the sign of the exact value. An exact 0 is +0.
\<close>

definition round64 :: "rat \<Rightarrow> float64" where
  "round64 r = (if r = 0 then Zero False else
     (let a = \<bar>r\<bar>; e = max (ilog2 a) (- 1022); ulp = pow2 (e - 52);
          v = of_int (round_half_even (a / ulp)) * ulp
      in if pow2 1024 \<le> v then Infinity (r < 0)
         else if v = 0 then Zero (r < 0)
         else Finite (if r < 0 then - v else v)))"

text \<open>An untyped numeric constant of the source, converted to float64.\<close>

definition f64 :: "rat \<Rightarrow> float64" where
  "f64 r = round64 r"

subsection \<open>The four operations\<close>

fun fneg :: "float64 \<Rightarrow> float64" where
  "fneg NaN = NaN"
| "fneg (Infinity s) = Infinity (\<not> s)"
| "fneg (Zero s) = Zero (\<not> s)"
| "fneg (Finite r) = Finite (- r)"

fun fadd :: "float64 \<Rightarrow> float64 \<Rightarrow> float64" where
  "fadd NaN y = NaN"
| "fadd x NaN = NaN"
| "fadd (Infinity s) (Infinity t) = (if s = t then Infinity s else NaN)"
| "fadd (Infinity s) y = Infinity s"
| "fadd x (Infinity t) = Infinity t"
| "fadd (Zero s) (Zero t) = Zero (s \<and> t)"
| "fadd (Zero s) (Finite b) = Finite b"
| "fadd (Finite a) (Zero t) = Finite a"
| "fadd (Finite a) (Finite b) = round64 (a + b)"

definition fsub :: "float64 \<Rightarrow> float64 \<Rightarrow> float64" where
  "fsub x y = fadd x (fneg y)"

fun fmul :: "float64 \<Rightarrow> float64 \<Rightarrow> float64" where
  "fmul NaN y = NaN"
| "fmul x NaN = NaN"
| "fmul (Infinity s) (Zero t) = NaN"
| "fmul (Zero s) (Infinity t) = NaN"
| "fmul (Infinity s) y = Infinity (s \<noteq> signbit y)"
| "fmul x (Infinity t) = Infinity (signbit x \<noteq> t)"
| "fmul (Zero s) y = Zero (s \<noteq> signbit y)"
| "fmul x (Zero t) = Zero (signbit x \<noteq> t)"
| "fmul (Finite a) (Finite b) = round64 (a * b)"

fun fdiv :: "float64 \<Rightarrow> float64 \<Rightarrow> float64" where
  "fdiv NaN y = NaN"
| "fdiv x NaN = NaN"
| "fdiv (Infinity s) (Infinity t) = NaN"
| "fdiv (Zero s) (Zero t) = NaN"
| "fdiv (Infinity s) y = Infinity (s \<noteq> signbit y)"
| "fdiv x (Infinity t) = Zero (signbit x \<noteq> t)"
| "fdiv (Zero s) y = Zero (s \<noteq> signbit y)"
| "fdiv x (Zero t) = Infinity (signbit x \<noteq> t)"
| "fdiv (Finite a) (Finite b) = round64 (a / b)"

subsection \<open>The functions of Go's math package\<close>

text \<open>
  \<^verbatim>\<open>math.Sin\<close>, \<^verbatim>\<open>math.Cos\<close>, \<^verbatim>\<open>math.Sinh\<close>, \<^verbatim>\<open>math.Log\<close>, \<^verbatim>\<open>math.Pow\<close> and
  \<^verbatim>\<open>math.Sqrt\<close> belong to the Go standard library, not to this package, and their
  results differ between platforms in the last bits. They are a parameter of every
  constructor.
\<close>

record mathlib =
  math_Sin :: "float64 \<Rightarrow> float64"
  math_Cos :: "float64 \<Rightarrow> float64"
  math_Sinh :: "float64 \<Rightarrow> float64"
  math_Log :: "float64 \<Rightarrow> float64"
  math_Sqrt :: "float64 \<Rightarrow> float64"
  math_Pow :: "float64 \<Rightarrow> float64 \<Rightarrow> float64"

section \<open>The package\<close>

datatype FilterName =
  Undefined | LowPass | HighPass | AllPass | BandPass | BandReject
  | LowShelf | HighShelf | Peaking

text \<open>
  \<^verbatim>\<open>const Pi = 3.1415926535897932384626433\<close> is an untyped constant; the variable
  \<^verbatim>\<open>p\<close> holds it as a float64.
\<close>

definition Pi :: float64 where
  "Pi = f64 (31415926535897932384626433 / 10 ^ 25)"

record Filter =
  name :: FilterName
  in1 :: float64
  in2 :: float64
  out1 :: float64
  out2 :: float64
  a0 :: float64
  a1 :: float64
  a2 :: float64
  b0 :: float64
  b1 :: float64
  b2 :: float64

text \<open>The zero value of the struct: \<^verbatim>\<open>Filter{}\<close>.\<close>

definition zero_Filter :: Filter where
  "zero_Filter = \<lparr>name = Undefined,
     in1 = Zero False, in2 = Zero False, out1 = Zero False, out2 = Zero False,
     a0 = Zero False, a1 = Zero False, a2 = Zero False,
     b0 = Zero False, b1 = Zero False, b2 = Zero False\<rparr>"

subsection \<open>The methods\<close>

text \<open>
  A method has a pointer receiver: it takes the Filter its receiver points to and
  returns its result with the Filter as the call leaves it.
\<close>

definition IsZero :: "Filter \<Rightarrow> bool \<times> Filter" where
  "IsZero f = (name f = Undefined, f)"

definition Name :: "Filter \<Rightarrow> FilterName \<times> Filter" where
  "Name f = (name f, f)"

definition Apply :: "Filter \<Rightarrow> float64 \<Rightarrow> float64 \<times> Filter" where
  "Apply f input =
     (let output =
            fsub (fsub (fadd (fadd (fmul (fdiv (b0 f) (a0 f)) input)
                                   (fmul (fdiv (b1 f) (a0 f)) (in1 f)))
                             (fmul (fdiv (b2 f) (a0 f)) (in2 f)))
                       (fmul (fdiv (a1 f) (a0 f)) (out1 f)))
                 (fmul (fdiv (a2 f) (a0 f)) (out2 f));
          f = f\<lparr>in2 := in1 f\<rparr>;
          f = f\<lparr>in1 := input\<rparr>;
          f = f\<lparr>out2 := out1 f\<rparr>;
          f = f\<lparr>out1 := output\<rparr>
      in (output, f))"

subsection \<open>The constructors\<close>

text \<open>
  Each constructor reads the package variable \<^verbatim>\<open>p\<close>: it is the argument \<open>p\<close>
  here. The struct literal names the kind and the six coefficients; the four state
  variables take the zero value of their type, +0.
\<close>

definition NewLowPass :: "mathlib \<Rightarrow> float64 \<Rightarrow> float64 \<Rightarrow> float64 \<Rightarrow> float64 \<Rightarrow> Filter" where
  "NewLowPass m p sampleRate frequency q =
     (let w0 = fdiv (fmul (fmul (f64 2) p) frequency) sampleRate;
          alpha = fdiv (math_Sin m w0) (fmul (f64 2) q)
      in \<lparr>name = LowPass,
         in1 = Zero False, in2 = Zero False, out1 = Zero False, out2 = Zero False,
         a0 = fadd (f64 1) alpha,
         a1 = fmul (f64 (- 2)) (math_Cos m w0),
         a2 = fsub (f64 1) alpha,
         b0 = fdiv (fsub (f64 1) (math_Cos m w0)) (f64 2),
         b1 = fsub (f64 1) (math_Cos m w0),
         b2 = fdiv (fsub (f64 1) (math_Cos m w0)) (f64 2)\<rparr>)"

definition NewHighPass :: "mathlib \<Rightarrow> float64 \<Rightarrow> float64 \<Rightarrow> float64 \<Rightarrow> float64 \<Rightarrow> Filter" where
  "NewHighPass m p sampleRate frequency q =
     (let w0 = fdiv (fmul (fmul (f64 2) p) frequency) sampleRate;
          alpha = fdiv (math_Sin m w0) (fmul (f64 2) q)
      in \<lparr>name = HighPass,
         in1 = Zero False, in2 = Zero False, out1 = Zero False, out2 = Zero False,
         a0 = fadd (f64 1) alpha,
         a1 = fmul (f64 (- 2)) (math_Cos m w0),
         a2 = fsub (f64 1) alpha,
         b0 = fdiv (fadd (f64 1) (math_Cos m w0)) (f64 2),
         b1 = fmul (f64 (- 1)) (fadd (f64 1) (math_Cos m w0)),
         b2 = fdiv (fadd (f64 1) (math_Cos m w0)) (f64 2)\<rparr>)"

definition NewAllPass :: "mathlib \<Rightarrow> float64 \<Rightarrow> float64 \<Rightarrow> float64 \<Rightarrow> float64 \<Rightarrow> Filter" where
  "NewAllPass m p sampleRate frequency q =
     (let w0 = fdiv (fmul (fmul (f64 2) p) frequency) sampleRate;
          alpha = fdiv (math_Sin m w0) (fmul (f64 2) q)
      in \<lparr>name = AllPass,
         in1 = Zero False, in2 = Zero False, out1 = Zero False, out2 = Zero False,
         a0 = fadd (f64 1) alpha,
         a1 = fmul (f64 (- 2)) (math_Cos m w0),
         a2 = fsub (f64 1) alpha,
         b0 = fsub (f64 1) alpha,
         b1 = fmul (f64 (- 2)) (math_Cos m w0),
         b2 = fadd (f64 1) alpha\<rparr>)"

definition NewBandPass :: "mathlib \<Rightarrow> float64 \<Rightarrow> float64 \<Rightarrow> float64 \<Rightarrow> float64 \<Rightarrow> Filter" where
  "NewBandPass m p sampleRate frequency width =
     (let w0 = fdiv (fmul (fmul (f64 2) p) frequency) sampleRate;
          alpha = fmul (math_Sin m w0)
                    (math_Sinh m (fdiv (fmul (fmul (fdiv (math_Log m (f64 2)) (f64 2)) width) w0)
                                       (math_Sin m w0)))
      in \<lparr>name = BandPass,
         in1 = Zero False, in2 = Zero False, out1 = Zero False, out2 = Zero False,
         a0 = fadd (f64 1) alpha,
         a1 = fmul (f64 (- 2)) (math_Cos m w0),
         a2 = fsub (f64 1) alpha,
         b0 = alpha,
         b1 = f64 0,
         b2 = fmul (f64 (- 1)) alpha\<rparr>)"

definition NewBandReject :: "mathlib \<Rightarrow> float64 \<Rightarrow> float64 \<Rightarrow> float64 \<Rightarrow> float64 \<Rightarrow> Filter" where
  "NewBandReject m p sampleRate frequency width =
     (let w0 = fdiv (fmul (fmul (f64 2) p) frequency) sampleRate;
          alpha = fmul (math_Sin m w0)
                    (math_Sinh m (fdiv (fmul (fmul (fdiv (math_Log m (f64 2)) (f64 2)) width) w0)
                                       (math_Sin m w0)))
      in \<lparr>name = BandReject,
         in1 = Zero False, in2 = Zero False, out1 = Zero False, out2 = Zero False,
         a0 = fadd (f64 1) alpha,
         a1 = fmul (f64 (- 2)) (math_Cos m w0),
         a2 = fsub (f64 1) alpha,
         b0 = f64 1,
         b1 = fmul (f64 (- 2)) (math_Cos m w0),
         b2 = f64 1\<rparr>)"

definition NewLowShelf :: "mathlib \<Rightarrow> float64 \<Rightarrow> float64 \<Rightarrow> float64 \<Rightarrow> float64 \<Rightarrow> float64 \<Rightarrow> Filter" where
  "NewLowShelf m p sampleRate frequency q gain =
     (let w0 = fdiv (fmul (fmul (f64 2) p) frequency) sampleRate;
          a = math_Pow m (f64 10) (fdiv gain (f64 40));
          beta = fdiv (math_Sqrt m a) q
      in \<lparr>name = LowShelf,
         in1 = Zero False, in2 = Zero False, out1 = Zero False, out2 = Zero False,
         a0 = fadd (fadd (fadd a (f64 1)) (fmul (fsub a (f64 1)) (math_Cos m w0))) (fmul beta (math_Sin m w0)),
         a1 = fmul (f64 (- 2)) (fadd (fsub a (f64 1)) (fmul (fadd a (f64 1)) (math_Cos m w0))),
         a2 = fsub (fadd (fadd a (f64 1)) (fmul (fsub a (f64 1)) (math_Cos m w0))) (fmul beta (math_Sin m w0)),
         b0 = fmul a (fadd (fsub (fadd a (f64 1)) (fmul (fsub a (f64 1)) (math_Cos m w0))) (fmul beta (math_Sin m w0))),
         b1 = fmul (fmul (f64 2) a) (fsub (fsub a (f64 1)) (fmul (fadd a (f64 1)) (math_Cos m w0))),
         b2 = fmul a (fsub (fsub (fadd a (f64 1)) (fmul (fsub a (f64 1)) (math_Cos m w0))) (fmul beta (math_Sin m w0)))\<rparr>)"

definition NewHighShelf :: "mathlib \<Rightarrow> float64 \<Rightarrow> float64 \<Rightarrow> float64 \<Rightarrow> float64 \<Rightarrow> float64 \<Rightarrow> Filter" where
  "NewHighShelf m p sampleRate frequency q gain =
     (let w0 = fdiv (fmul (fmul (f64 2) p) frequency) sampleRate;
          a = math_Pow m (f64 10) (fdiv gain (f64 40));
          beta = fdiv (math_Sqrt m a) q
      in \<lparr>name = HighShelf,
         in1 = Zero False, in2 = Zero False, out1 = Zero False, out2 = Zero False,
         a0 = fadd (fsub (fadd a (f64 1)) (fmul (fsub a (f64 1)) (math_Cos m w0))) (fmul beta (math_Sin m w0)),
         a1 = fmul (f64 2) (fsub (fsub a (f64 1)) (fmul (fadd a (f64 1)) (math_Cos m w0))),
         a2 = fsub (fsub (fadd a (f64 1)) (fmul (fsub a (f64 1)) (math_Cos m w0))) (fmul beta (math_Sin m w0)),
         b0 = fmul a (fadd (fadd (fadd a (f64 1)) (fmul (fsub a (f64 1)) (math_Cos m w0))) (fmul beta (math_Sin m w0))),
         b1 = fmul (fmul (f64 (- 2)) a) (fadd (fsub a (f64 1)) (fmul (fadd a (f64 1)) (math_Cos m w0))),
         b2 = fmul a (fsub (fadd (fadd a (f64 1)) (fmul (fsub a (f64 1)) (math_Cos m w0))) (fmul beta (math_Sin m w0)))\<rparr>)"

definition NewPeaking :: "mathlib \<Rightarrow> float64 \<Rightarrow> float64 \<Rightarrow> float64 \<Rightarrow> float64 \<Rightarrow> float64 \<Rightarrow> Filter" where
  "NewPeaking m p sampleRate frequency width gain =
     (let w0 = fdiv (fmul (fmul (f64 2) p) frequency) sampleRate;
          alpha = fmul (math_Sin m w0)
                    (math_Sinh m (fdiv (fmul (fmul (fdiv (math_Log m (f64 2)) (f64 2)) width) w0)
                                       (math_Sin m w0)));
          a = math_Pow m (f64 10) (fdiv gain (f64 40))
      in \<lparr>name = Peaking,
         in1 = Zero False, in2 = Zero False, out1 = Zero False, out2 = Zero False,
         a0 = fadd (f64 1) (fdiv alpha a),
         a1 = fmul (f64 (- 2)) (math_Cos m w0),
         a2 = fsub (f64 1) (fdiv alpha a),
         b0 = fadd (f64 1) (fmul alpha a),
         b1 = fmul (f64 (- 2)) (math_Cos m w0),
         b2 = fsub (f64 1) (fmul alpha a)\<rparr>)"

subsection \<open>A stream of samples\<close>

text \<open>
  The caller's loop, \<^verbatim>\<open>for i := range input { output[i] = f.Apply(input[i]) }\<close>:
  one call of Apply per sample, in order, on one Filter.
\<close>

fun run :: "Filter \<Rightarrow> float64 list \<Rightarrow> float64 list \<times> Filter" where
  "run f [] = ([], f)"
| "run f (x # xs) =
     (case Apply f x of (y, f') \<Rightarrow>
        (case run f' xs of (ys, f'') \<Rightarrow> (y # ys, f'')))"

subsection \<open>The package variable and the allocated Filters\<close>

text \<open>
  The state of the package: the variable \<^verbatim>\<open>p\<close>, and the Filters allocated so far.
  A \<^verbatim>\<open>*Filter\<close> is an index into \<open>heap\<close>; \<^verbatim>\<open>&Filter{...}\<close> appends a
  new Filter and returns its index. A method called through a pointer that names no
  Filter (nil) panics: \<open>None\<close>.
\<close>

record pkg =
  var_p :: float64
  heap :: "Filter list"

definition init_pkg :: pkg where
  "init_pkg = \<lparr>var_p = Pi, heap = []\<rparr>"

definition SetPi :: "float64 \<Rightarrow> pkg \<Rightarrow> pkg" where
  "SetPi val s = s\<lparr>var_p := val\<rparr>"

definition UnsetPi :: "pkg \<Rightarrow> pkg" where
  "UnsetPi s = s\<lparr>var_p := Pi\<rparr>"

text \<open>A call of one of the eight constructors, with its arguments.\<close>

datatype factory_call =
  CallLowPass float64 float64 float64
| CallHighPass float64 float64 float64
| CallAllPass float64 float64 float64
| CallBandPass float64 float64 float64
| CallBandReject float64 float64 float64
| CallLowShelf float64 float64 float64 float64
| CallHighShelf float64 float64 float64 float64
| CallPeaking float64 float64 float64 float64

fun factory :: "mathlib \<Rightarrow> float64 \<Rightarrow> factory_call \<Rightarrow> Filter" where
  "factory m p (CallLowPass sampleRate frequency q) = NewLowPass m p sampleRate frequency q"
| "factory m p (CallHighPass sampleRate frequency q) = NewHighPass m p sampleRate frequency q"
| "factory m p (CallAllPass sampleRate frequency q) = NewAllPass m p sampleRate frequency q"
| "factory m p (CallBandPass sampleRate frequency width) =
     NewBandPass m p sampleRate frequency width"
| "factory m p (CallBandReject sampleRate frequency width) =
     NewBandReject m p sampleRate frequency width"
| "factory m p (CallLowShelf sampleRate frequency q gain) =
     NewLowShelf m p sampleRate frequency q gain"
| "factory m p (CallHighShelf sampleRate frequency q gain) =
     NewHighShelf m p sampleRate frequency q gain"
| "factory m p (CallPeaking sampleRate frequency width gain) =
     NewPeaking m p sampleRate frequency width gain"

text \<open>The kind each constructor is named after.\<close>

fun kind_of :: "factory_call \<Rightarrow> FilterName" where
  "kind_of (CallLowPass sampleRate frequency q) = LowPass"
| "kind_of (CallHighPass sampleRate frequency q) = HighPass"
| "kind_of (CallAllPass sampleRate frequency q) = AllPass"
| "kind_of (CallBandPass sampleRate frequency width) = BandPass"
| "kind_of (CallBandReject sampleRate frequency width) = BandReject"
| "kind_of (CallLowShelf sampleRate frequency q gain) = LowShelf"
| "kind_of (CallHighShelf sampleRate frequency q gain) = HighShelf"
| "kind_of (CallPeaking sampleRate frequency width gain) = Peaking"

text \<open>A constructor called in a state of the package: it reads \<^verbatim>\<open>p\<close> and allocates.\<close>

definition new :: "mathlib \<Rightarrow> factory_call \<Rightarrow> pkg \<Rightarrow> nat \<times> pkg" where
  "new m c s = (length (heap s), s\<lparr>heap := heap s @ [factory m (var_p s) c]\<rparr>)"

text \<open>A method called through a pointer.\<close>

definition call_method ::
  "(Filter \<Rightarrow> 'r \<times> Filter) \<Rightarrow> nat \<Rightarrow> pkg \<Rightarrow> ('r \<times> pkg) option" where
  "call_method mth ptr s =
     (if ptr < length (heap s)
      then (case mth (heap s ! ptr) of (r, f') \<Rightarrow> Some (r, s\<lparr>heap := (heap s)[ptr := f']\<rparr>))
      else None)"

subsection \<open>Predicates of the properties\<close>

text \<open>
  What the four state variables hold after the inputs \<open>xs\<close> have given the outputs
  \<open>ys\<close>: nothing but +0 before the first call, the first input and output beside +0
  after one call, the last two inputs and the last two outputs from the second call on.
\<close>

definition history_inv :: "float64 list \<Rightarrow> float64 list \<Rightarrow> Filter \<Rightarrow> bool" where
  "history_inv xs ys f =
     (let n = length xs in
      length ys = n \<and>
      (if n = 0 then in1 f = Zero False \<and> in2 f = Zero False
                     \<and> out1 f = Zero False \<and> out2 f = Zero False
       else if n = 1 then in1 f = xs ! 0 \<and> in2 f = Zero False
                          \<and> out1 f = ys ! 0 \<and> out2 f = Zero False
       else in1 f = xs ! (n - 1) \<and> in2 f = xs ! (n - 2)
            \<and> out1 f = ys ! (n - 1) \<and> out2 f = ys ! (n - 2)))"

definition has_NaN :: "Filter \<Rightarrow> bool" where
  "has_NaN f = (isNaN (in1 f) \<or> isNaN (in2 f) \<or> isNaN (out1 f) \<or> isNaN (out2 f))"

fun zero_or_NaN :: "float64 \<Rightarrow> bool" where
  "zero_or_NaN NaN = True"
| "zero_or_NaN (Zero s) = True"
| "zero_or_NaN x = False"

text \<open>
  The special cases the documentation of Go's math package states for the two functions
  that meet a zero or a NaN below: \<^verbatim>\<open>Sin(\<plusminus>0) = \<plusminus>0\<close> and \<^verbatim>\<open>Sinh(NaN) = NaN\<close>.
\<close>

definition math_special_cases :: "mathlib \<Rightarrow> bool" where
  "math_special_cases m =
     (math_Sin m (Zero False) = Zero False \<and> math_Sin m (Zero True) = Zero True
      \<and> math_Sinh m NaN = NaN)"

text \<open>
  A math library to apply the theorems to: each function by the leading term of its
  series at 0 (sin x and sinh x as x, cos x as 1, log x as x - 1).
\<close>

definition toy_math :: mathlib where
  "toy_math = \<lparr>math_Sin = (\<lambda>x. x), math_Cos = (\<lambda>x. Finite 1), math_Sinh = (\<lambda>x. x),
     math_Log = (\<lambda>x. fsub x (Finite 1)), math_Sqrt = (\<lambda>x. x),
     math_Pow = (\<lambda>x y. Finite 1)\<rparr>"

section \<open>Properties\<close>

subsection \<open>The exponent of a rational\<close>

text \<open>\<open>ilog2\<close> finds the binary exponent of every positive rational, and only that one.\<close>

lemma pow2_powi: "pow2 e = power_int 2 e"
  by (simp add: pow2_def power_int_def inverse_eq_divide power_one_over)

lemma pow2_pos: "0 < pow2 e"
  by (simp add: pow2_powi)

lemma pow2_add: "pow2 (a + b) = pow2 a * pow2 b"
  by (simp add: pow2_powi power_int_add)

lemma pow2_strict_mono: "a < b \<Longrightarrow> pow2 a < pow2 b"
  by (simp add: pow2_powi power_int_strict_increasing)

lemma pow2_mono: "a \<le> b \<Longrightarrow> pow2 a \<le> pow2 b"
  by (simp add: pow2_powi power_int_increasing)

lemma pow2_nat: "pow2 (int k) = 2 ^ k"
  by (simp add: pow2_def)

lemma bitlen_nonneg: "0 \<le> bitlen n"
proof (induction n rule: bitlen.induct)
  case (1 n)
  then show ?case using bitlen.simps [of n] by (cases "n \<le> 0") simp_all
qed

lemma bitlen_pos: "0 < n \<Longrightarrow> 0 < bitlen n"
  using bitlen.simps [of n] bitlen_nonneg [of "n div 2"] by simp

lemma bitlen_bounds:
  "0 < n \<Longrightarrow> 2 ^ nat (bitlen n - 1) \<le> n \<and> n < 2 ^ nat (bitlen n)"
proof (induction n rule: bitlen.induct)
  case (1 n)
  show ?case
  proof (cases "n = 1")
    case True
    then show ?thesis using bitlen.simps [of 1] bitlen.simps [of 0] by simp
  next
    case False
    with "1.prems" have h: "0 < n div 2" by linarith
    from "1.IH" h "1.prems"
    have ih: "2 ^ nat (bitlen (n div 2) - 1) \<le> n div 2" "n div 2 < 2 ^ nat (bitlen (n div 2))"
      by simp_all
    have k: "0 < bitlen (n div 2)" using h by (rule bitlen_pos)
    have b: "bitlen n = 1 + bitlen (n div 2)"
      using "1.prems" bitlen.simps [of n] by simp
    have e1: "nat (bitlen n - 1) = Suc (nat (bitlen (n div 2) - 1))"
      using b k by simp
    have e2: "nat (bitlen n) = Suc (nat (bitlen (n div 2)))"
      using b k by simp
    from ih show ?thesis
      unfolding e1 e2 by simp linarith
  qed
qed

lemma bitlen_bounds_rat:
  assumes "0 < n"
  shows "pow2 (bitlen n - 1) \<le> of_int n \<and> of_int n < pow2 (bitlen n)"
proof -
  from bitlen_bounds [OF assms]
  have i: "2 ^ nat (bitlen n - 1) \<le> n" "n < 2 ^ nat (bitlen n)" by simp_all
  have "(of_int (2 ^ nat (bitlen n - 1)) :: rat) \<le> of_int n"
    using i(1) by (rule iffD2 [OF of_int_le_iff])
  moreover have "(of_int n :: rat) < of_int (2 ^ nat (bitlen n))"
    using i(2) by (rule iffD2 [OF of_int_less_iff])
  ultimately show ?thesis
    using bitlen_pos [OF assms] by (simp add: pow2_def)
qed

lemma ilog2_bounds:
  assumes "0 < a"
  shows "pow2 (ilog2 a) \<le> a \<and> a < pow2 (ilog2 a + 1)"
proof -
  obtain n d where q: "quotient_of a = (n, d)" by (cases "quotient_of a")
  then have d: "0 < d" by (rule quotient_of_denom_pos)
  from q have a: "a = of_int n / of_int d" by (rule quotient_of_div)
  with assms d have n: "0 < n" by (simp add: zero_less_divide_iff)
  define bn where "bn = bitlen n"
  define bd where "bd = bitlen d"
  have bnp: "0 < bn" and bdp: "0 < bd"
    using n d by (simp_all add: bn_def bd_def bitlen_pos)
  from bitlen_bounds_rat [OF n] have n1: "pow2 (bn - 1) \<le> of_int n" and n2: "of_int n < pow2 bn"
    by (simp_all add: bn_def)
  from bitlen_bounds_rat [OF d] have d1: "pow2 (bd - 1) \<le> of_int d" and d2: "of_int d < pow2 bd"
    by (simp_all add: bd_def)
  have dpos: "(0::rat) < of_int d" using d by simp
  have up: "a < pow2 (bn - bd + 1)"
  proof -
    have "of_int n < pow2 bn" by (rule n2)
    also have "pow2 bn = pow2 (bn - bd + 1) * pow2 (bd - 1)"
      by (simp add: pow2_add [symmetric])
    also have "\<dots> \<le> pow2 (bn - bd + 1) * of_int d"
      using d1 pow2_pos [of "bn - bd + 1"] by (simp add: mult_left_mono)
    finally show ?thesis using dpos by (simp add: a pos_divide_less_eq)
  qed
  have lo: "pow2 (bn - bd - 1) < a"
  proof -
    have "pow2 (bn - bd - 1) * of_int d < pow2 (bn - bd - 1) * pow2 bd"
      using d2 pow2_pos [of "bn - bd - 1"] by (simp add: mult_strict_left_mono)
    also have "\<dots> = pow2 (bn - 1)" by (simp add: pow2_add [symmetric])
    also have "\<dots> \<le> of_int n" by (rule n1)
    finally show ?thesis using dpos by (simp add: a pos_less_divide_eq)
  qed
  show ?thesis
  proof (cases "pow2 (bn - bd) \<le> a")
    case True
    then have "ilog2 a = bn - bd" by (simp add: ilog2_def q bn_def bd_def)
    with True up show ?thesis by simp
  next
    case False
    then have "ilog2 a = bn - bd - 1" by (simp add: ilog2_def q bn_def bd_def)
    with False lo show ?thesis by simp
  qed
qed

lemma ilog2_eq:
  assumes "pow2 e \<le> a" and "a < pow2 (e + 1)"
  shows "ilog2 a = e"
proof -
  have "0 < a" using assms(1) pow2_pos [of e] by linarith
  then have b: "pow2 (ilog2 a) \<le> a" "a < pow2 (ilog2 a + 1)"
    using ilog2_bounds by simp_all
  have "\<not> ilog2 a < e"
  proof
    assume "ilog2 a < e"
    then have "pow2 (ilog2 a + 1) \<le> pow2 e" by (simp add: pow2_mono)
    with b(2) assms(1) show False by linarith
  qed
  moreover have "\<not> e < ilog2 a"
  proof
    assume "e < ilog2 a"
    then have "pow2 (e + 1) \<le> pow2 (ilog2 a)" by (simp add: pow2_mono)
    with b(1) assms(2) show False by linarith
  qed
  ultimately show ?thesis by linarith
qed

subsection \<open>Rounding at concrete values\<close>

lemma pow2_numeral:
  "pow2 (numeral k) = 2 ^ numeral k"
  "pow2 (- numeral k) = 1 / 2 ^ numeral k"
  "pow2 0 = 1"
  "pow2 1 = 2"
  "pow2 (- 1) = 1 / 2"
  by (simp_all add: pow2_def)

lemma floor_numeral_div:
  "\<lfloor>numeral a / numeral b :: rat\<rfloor> = numeral a div numeral b"
  "\<lfloor>1 / numeral b :: rat\<rfloor> = 1 div numeral b"
  using floor_divide_of_int_eq [of "numeral a" "numeral b", where ?'a = rat]
    floor_divide_of_int_eq [of 1 "numeral b", where ?'a = rat]
  by simp_all

lemma round64_at:
  assumes "pow2 e \<le> \<bar>r\<bar>" and "\<bar>r\<bar> < pow2 (e + 1)"
  shows "round64 r =
     (let ulp = pow2 (max e (- 1022) - 52);
          v = of_int (round_half_even (\<bar>r\<bar> / ulp)) * ulp
      in if pow2 1024 \<le> v then Infinity (r < 0)
         else if v = 0 then Zero (r < 0)
         else Finite (if r < 0 then - v else v))"
proof -
  have "r \<noteq> 0" using assms(1) pow2_pos [of e] by auto
  have l: "ilog2 \<bar>r\<bar> = e" using assms by (rule ilog2_eq)
  show ?thesis
    unfolding round64_def Let_def l using \<open>r \<noteq> 0\<close> by (simp only: if_False)
qed

lemmas round64_eval = round_half_even_def Let_def pow2_numeral floor_numeral_div

text \<open>
  Values every binary64 implementation agrees on: 0.1, 0.2 and their sum
  0.30000000000000004, 1/3, an overflow to +Inf, and half of the smallest subnormal
  number, which is a tie and goes to the even neighbour, a zero that keeps the sign.
\<close>

lemma f64_tenth: "f64 (1 / 10) = Finite (3602879701896397 / 36028797018963968)"
  unfolding f64_def
  by (subst round64_at [of "- 4"]) (simp_all add: round64_eval)

lemma f64_fifth: "f64 (1 / 5) = Finite (3602879701896397 / 18014398509481984)"
  unfolding f64_def
  by (subst round64_at [of "- 3"]) (simp_all add: round64_eval)

lemma tenth_plus_fifth:
  "fadd (f64 (1 / 10)) (f64 (1 / 5)) = Finite (1351079888211149 / 4503599627370496)"
  unfolding f64_tenth f64_fifth fadd.simps
  by (subst round64_at [of "- 2"]) (simp_all add: round64_eval)

lemma one_third: "fdiv (Finite 1) (Finite 3) = Finite (6004799503160661 / 18014398509481984)"
  unfolding fdiv.simps
  by (subst round64_at [of "- 2"]) (simp_all add: round64_eval)

lemma fmul_overflow: "fmul (Finite (2 ^ 1023)) (Finite 2) = Infinity False"
  unfolding fmul.simps
  by (subst round64_at [of 1024]) (simp_all add: round64_eval)

lemma fdiv_underflow: "fdiv (Finite (- 1 / 2 ^ 1074)) (Finite 2) = Zero True"
  unfolding fdiv.simps
  by (subst round64_at [of "- 1075"]) (simp_all add: round64_eval)

subsection \<open>The constants of the source as float64 values\<close>

lemma f64_0: "f64 0 = Zero False"
  by (simp add: f64_def round64_def)

lemma f64_1: "f64 1 = Finite 1"
  unfolding f64_def
  by (subst round64_at [of 0]) (simp_all add: round64_eval)

lemma f64_2: "f64 2 = Finite 2"
  unfolding f64_def
  by (subst round64_at [of 1]) (simp_all add: round64_eval)

lemma f64_m1: "f64 (- 1) = Finite (- 1)"
  unfolding f64_def
  by (subst round64_at [of 0]) (simp_all add: round64_eval)

lemma f64_m2: "f64 (- 2) = Finite (- 2)"
  unfolding f64_def
  by (subst round64_at [of 1]) (simp_all add: round64_eval)

lemma f64_10: "f64 10 = Finite 10"
  unfolding f64_def
  by (subst round64_at [of 3]) (simp_all add: round64_eval)

lemma f64_40: "f64 40 = Finite 40"
  unfolding f64_def
  by (subst round64_at [of 5]) (simp_all add: round64_eval)

text \<open>The float64 of the literal Pi is the one of bits \<^verbatim>\<open>0x400921FB54442D18\<close>.\<close>

lemma Pi_value: "Pi = Finite (884279719003555 / 281474976710656)"
  unfolding Pi_def f64_def
  by (subst round64_at [of 1]) (simp_all add: round64_eval)

lemma two_Pi: "fmul (f64 2) Pi = Finite (884279719003555 / 140737488355328)"
  unfolding f64_2 Pi_value fmul.simps
  by (subst round64_at [of 2]) (simp_all add: round64_eval)

subsection \<open>NaN and zero in the four operations\<close>

lemma fadd_NaN_right [simp]: "fadd x NaN = NaN"
  by (cases x) simp_all

lemma fmul_NaN_right [simp]: "fmul x NaN = NaN"
  by (cases x) simp_all

lemma fdiv_NaN_right [simp]: "fdiv x NaN = NaN"
  by (cases x) simp_all

lemma fsub_NaN_left [simp]: "fsub NaN y = NaN"
  by (simp add: fsub_def)

lemma fsub_NaN_right [simp]: "fsub x NaN = NaN"
  by (simp add: fsub_def)

lemma fmul_zero_right: "zero_or_NaN y \<Longrightarrow> zero_or_NaN (fmul x y)"
  by (cases x; cases y) simp_all

lemma fdiv_zero_left: "zero_or_NaN x \<Longrightarrow> zero_or_NaN (fdiv x y)"
  by (cases x; cases y) simp_all

lemma fdiv_zero_zero: "zero_or_NaN x \<Longrightarrow> fdiv x (Zero t) = NaN"
  by (cases x) simp_all

subsection \<open>Apply\<close>

text \<open>
  C1. Apply returns (b0/a0)*input + (b1/a0)*in1 + (b2/a0)*in2 - (a1/a0)*out1 -
  (a2/a0)*out2, the sums and differences taken from left to right, on the history the
  call found; afterwards in2 is the old in1, in1 the input, out2 the old out1 and out1
  the output, and the kind and the six coefficients are the ones the call found.
\<close>

theorem Apply_output_and_shift:
  "fst (Apply f input) =
     fsub (fsub (fadd (fadd (fmul (fdiv (b0 f) (a0 f)) input)
                            (fmul (fdiv (b1 f) (a0 f)) (in1 f)))
                      (fmul (fdiv (b2 f) (a0 f)) (in2 f)))
                (fmul (fdiv (a1 f) (a0 f)) (out1 f)))
          (fmul (fdiv (a2 f) (a0 f)) (out2 f))
   \<and> in2 (snd (Apply f input)) = in1 f
   \<and> in1 (snd (Apply f input)) = input
   \<and> out2 (snd (Apply f input)) = out1 f
   \<and> out1 (snd (Apply f input)) = fst (Apply f input)
   \<and> a0 (snd (Apply f input)) = a0 f
   \<and> a1 (snd (Apply f input)) = a1 f
   \<and> a2 (snd (Apply f input)) = a2 f
   \<and> b0 (snd (Apply f input)) = b0 f
   \<and> b1 (snd (Apply f input)) = b1 f
   \<and> b2 (snd (Apply f input)) = b2 f
   \<and> name (snd (Apply f input)) = name f"
  by (simp add: Apply_def Let_def)

lemma Apply_fields [simp]:
  "in1 (snd (Apply f x)) = x"
  "in2 (snd (Apply f x)) = in1 f"
  "out1 (snd (Apply f x)) = fst (Apply f x)"
  "out2 (snd (Apply f x)) = out1 f"
  "a0 (snd (Apply f x)) = a0 f"
  "a1 (snd (Apply f x)) = a1 f"
  "a2 (snd (Apply f x)) = a2 f"
  "b0 (snd (Apply f x)) = b0 f"
  "b1 (snd (Apply f x)) = b1 f"
  "b2 (snd (Apply f x)) = b2 f"
  "name (snd (Apply f x)) = name f"
  by (simp_all add: Apply_def Let_def)

lemma run_Cons:
  "run f (x # xs) =
     (fst (Apply f x) # fst (run (snd (Apply f x)) xs), snd (run (snd (Apply f x)) xs))"
  by (simp split: prod.splits)

lemma run_length: "length (fst (run f xs)) = length xs"
  by (induction xs arbitrary: f) (simp_all add: run_Cons del: run.simps(2))

lemma run_snoc:
  "run f (xs @ [x]) =
     (fst (run f xs) @ [fst (Apply (snd (run f xs)) x)], snd (Apply (snd (run f xs)) x))"
  by (induction xs arbitrary: f) (simp_all add: run_Cons del: run.simps(2))

subsection \<open>The history of a Filter\<close>

lemma factory_history:
  "in1 (factory m p c) = Zero False \<and> in2 (factory m p c) = Zero False \<and>
   out1 (factory m p c) = Zero False \<and> out2 (factory m p c) = Zero False"
  by (cases c)
    (simp_all add: NewLowPass_def NewHighPass_def NewAllPass_def NewBandPass_def
      NewBandReject_def NewLowShelf_def NewHighShelf_def NewPeaking_def Let_def)

lemma history_inv_step:
  assumes "history_inv xs ys f"
  shows "history_inv (xs @ [x]) (ys @ [fst (Apply f x)]) (snd (Apply f x))"
proof -
  from assms have len: "length ys = length xs"
    by (simp add: history_inv_def Let_def)
  consider "length xs = 0" | "length xs = 1" | "2 \<le> length xs"
    by linarith
  then show ?thesis
  proof cases
    case 1
    with assms show ?thesis
      by (simp add: history_inv_def)
  next
    case 2
    with assms len show ?thesis
      by (simp add: history_inv_def nth_append)
  next
    case 3
    with assms len show ?thesis
      by (simp add: history_inv_def Let_def nth_append)
  qed
qed

lemma history_inv_run:
  "history_inv [] [] f \<Longrightarrow> history_inv xs (fst (run f xs)) (snd (run f xs))"
proof (induction xs rule: rev_induct)
  case Nil
  then show ?case by simp
next
  case (snoc x xs)
  then have "history_inv xs (fst (run f xs)) (snd (run f xs))" by simp
  then have "history_inv (xs @ [x]) (fst (run f xs) @ [fst (Apply (snd (run f xs)) x)])
               (snd (Apply (snd (run f xs)) x))"
    by (rule history_inv_step)
  then show ?case
    by (simp add: run_snoc)
qed

text \<open>
  C4. After the inputs x1..xn have been applied in order to a Filter a constructor
  returned, giving the outputs y1..yn: for n of 2 or more, in1 = xn, in2 = x(n-1),
  out1 = yn and out2 = y(n-1); for n = 1, in1 = x1 and out1 = y1, and in2 and out2 are
  still +0. Every further Apply keeps this relation between the Filter and the inputs
  and outputs so far.
\<close>

theorem history_tracks_last_two:
  "history_inv xs (fst (run (factory m p c) xs)) (snd (run (factory m p c) xs))
   \<and> (history_inv xs ys f \<longrightarrow>
        history_inv (xs @ [input]) (ys @ [fst (Apply f input)]) (snd (Apply f input)))"
proof -
  have "history_inv [] [] (factory m p c)"
    using factory_history [of m p c] by (simp add: history_inv_def)
  then show ?thesis
    using history_inv_run history_inv_step by blast
qed

theorem history_tracks_last_two_witness:
  "history_inv [] [] zero_Filter
   \<and> history_inv [Finite 1] [fst (Apply zero_Filter (Finite 1))]
        (snd (Apply zero_Filter (Finite 1)))
   \<and> history_inv [Finite 1, Finite 2]
        (fst (run (factory toy_math Pi (CallLowPass (Finite 44100) (Finite 1000) (Finite 1)))
               [Finite 1, Finite 2]))
        (snd (run (factory toy_math Pi (CallLowPass (Finite 44100) (Finite 1000) (Finite 1)))
               [Finite 1, Finite 2]))"
proof -
  have h: "history_inv [] [] zero_Filter"
    by (simp add: history_inv_def zero_Filter_def)
  show ?thesis
    using h
      history_tracks_last_two [of "[]" toy_math Pi
        "CallLowPass (Finite 44100) (Finite 1000) (Finite 1)" "[]" zero_Filter "Finite 1"]
      history_tracks_last_two [of "[Finite 1, Finite 2]" toy_math Pi
        "CallLowPass (Finite 44100) (Finite 1000) (Finite 1)" "[]" zero_Filter "Finite 1"]
    by simp
qed

subsection \<open>NaN in the history\<close>

lemma Apply_NaN: "has_NaN f \<Longrightarrow> fst (Apply f x) = NaN"
  by (auto simp add: has_NaN_def isNaN_def Apply_def Let_def)

lemma Apply_has_NaN: "has_NaN f \<Longrightarrow> has_NaN (snd (Apply f x))"
  using Apply_NaN [of f x] by (simp add: has_NaN_def isNaN_def)

lemma run_NaN: "has_NaN f \<Longrightarrow> list_all isNaN (fst (run f xs)) \<and> has_NaN (snd (run f xs))"
proof (induction xs arbitrary: f)
  case Nil
  then show ?case by simp
next
  case (Cons x xs)
  have "has_NaN (snd (Apply f x))" using Cons.prems by (rule Apply_has_NaN)
  from Cons.IH [OF this] Apply_NaN [OF Cons.prems, of x]
  show ?case by (simp add: isNaN_def run_Cons del: run.simps(2))
qed

text \<open>
  C7. When one of in1, in2, out1, out2 is NaN before a call of Apply, the output of the
  call is NaN and one of the four is NaN after it (the coefficients are the same, by
  C1); so every output of every later call on that Filter is NaN, whatever the inputs.
\<close>

theorem NaN_is_sticky:
  assumes "has_NaN f"
  shows "isNaN (fst (Apply f input)) \<and> has_NaN (snd (Apply f input))
         \<and> list_all isNaN (fst (run f xs)) \<and> has_NaN (snd (run f xs))"
  using assms Apply_NaN [of f input] Apply_has_NaN [of f input] run_NaN [of f xs]
  by (simp add: isNaN_def)

theorem NaN_is_sticky_witness:
  "has_NaN ((NewLowPass toy_math Pi (Finite 44100) (Finite 1000) (Finite 1))\<lparr>out2 := NaN\<rparr>)
   \<and> isNaN (fst (Apply ((NewLowPass toy_math Pi (Finite 44100) (Finite 1000) (Finite 1))
                          \<lparr>out2 := NaN\<rparr>) (Finite 1)))
   \<and> list_all isNaN (fst (run ((NewLowPass toy_math Pi (Finite 44100) (Finite 1000) (Finite 1))
                                 \<lparr>out2 := NaN\<rparr>) [Finite 1, Zero False, Finite (- 3)]))"
proof -
  have h: "has_NaN ((NewLowPass toy_math Pi (Finite 44100) (Finite 1000) (Finite 1))
                     \<lparr>out2 := NaN\<rparr>)"
    by (simp add: has_NaN_def isNaN_def)
  show ?thesis
    using h NaN_is_sticky [OF h, of "Finite 1" "[Finite 1, Zero False, Finite (- 3)]"]
    by simp
qed

subsection \<open>The constructors\<close>

text \<open>
  C2. NewLowPass stores, with w0 = 2*p*frequency/sampleRate and alpha = sin(w0)/(2*q),
  a0 = 1+alpha, a1 = -2*cos(w0), a2 = 1-alpha, b0 = (1-cos(w0))/2, b1 = 1-cos(w0) and
  b2 = (1-cos(w0))/2: the six values of the formulas, none of them divided by a0.
\<close>

theorem NewLowPass_coefficients:
  "(let w0 = fdiv (fmul (fmul (f64 2) p) frequency) sampleRate;
        alpha = fdiv (math_Sin m w0) (fmul (f64 2) q);
        f = NewLowPass m p sampleRate frequency q
    in a0 f = fadd (f64 1) alpha
     \<and> a1 f = fmul (f64 (- 2)) (math_Cos m w0)
     \<and> a2 f = fsub (f64 1) alpha
     \<and> b0 f = fdiv (fsub (f64 1) (math_Cos m w0)) (f64 2)
     \<and> b1 f = fsub (f64 1) (math_Cos m w0)
     \<and> b2 f = fdiv (fsub (f64 1) (math_Cos m w0)) (f64 2))"
  by (simp add: NewLowPass_def Let_def)

text \<open>
  C3. NewPeaking stores, with w0 = 2*p*frequency/sampleRate, alpha =
  sin(w0)*sinh((ln 2/2)*width*w0/sin(w0)) and A = 10^(gain/40), a0 = 1+alpha/A,
  a1 = -2*cos(w0), a2 = 1-alpha/A, b0 = 1+alpha*A, b1 = -2*cos(w0) and b2 = 1-alpha*A.
\<close>

theorem NewPeaking_coefficients:
  "(let w0 = fdiv (fmul (fmul (f64 2) p) frequency) sampleRate;
        alpha = fmul (math_Sin m w0)
                  (math_Sinh m (fdiv (fmul (fmul (fdiv (math_Log m (f64 2)) (f64 2)) width) w0)
                                     (math_Sin m w0)));
        A = math_Pow m (f64 10) (fdiv gain (f64 40));
        f = NewPeaking m p sampleRate frequency width gain
    in a0 f = fadd (f64 1) (fdiv alpha A)
     \<and> a1 f = fmul (f64 (- 2)) (math_Cos m w0)
     \<and> a2 f = fsub (f64 1) (fdiv alpha A)
     \<and> b0 f = fadd (f64 1) (fmul alpha A)
     \<and> b1 f = fmul (f64 (- 2)) (math_Cos m w0)
     \<and> b2 f = fsub (f64 1) (fmul alpha A))"
  by (simp add: NewPeaking_def Let_def)

text \<open>
  C5. The Filter NewAllPass returns has b0 = a2, b1 = a1 and b2 = a0, as float64 values:
  each pair is the value of one expression on the same w0 and alpha.
\<close>

theorem NewAllPass_mirrored:
  "b0 (NewAllPass m p sampleRate frequency q) = a2 (NewAllPass m p sampleRate frequency q)
   \<and> b1 (NewAllPass m p sampleRate frequency q) = a1 (NewAllPass m p sampleRate frequency q)
   \<and> b2 (NewAllPass m p sampleRate frequency q) = a0 (NewAllPass m p sampleRate frequency q)"
  by (simp add: NewAllPass_def Let_def)

text \<open>
  C8. The zero value of Filter has the name Undefined and IsZero true. The Filter of each
  constructor has the name of its kind, which is never Undefined, and IsZero false. Name
  and IsZero leave the Filter as they found it.
\<close>

theorem kind_tagging:
  "fst (Name zero_Filter) = Undefined
   \<and> fst (IsZero zero_Filter)
   \<and> fst (Name (NewLowPass m p sampleRate frequency q)) = LowPass
   \<and> fst (Name (NewHighPass m p sampleRate frequency q)) = HighPass
   \<and> fst (Name (NewAllPass m p sampleRate frequency q)) = AllPass
   \<and> fst (Name (NewBandPass m p sampleRate frequency width)) = BandPass
   \<and> fst (Name (NewBandReject m p sampleRate frequency width)) = BandReject
   \<and> fst (Name (NewLowShelf m p sampleRate frequency q gain)) = LowShelf
   \<and> fst (Name (NewHighShelf m p sampleRate frequency q gain)) = HighShelf
   \<and> fst (Name (NewPeaking m p sampleRate frequency width gain)) = Peaking
   \<and> fst (Name (factory m p c)) = kind_of c
   \<and> fst (Name (factory m p c)) \<noteq> Undefined
   \<and> \<not> fst (IsZero (factory m p c))
   \<and> snd (Name f) = f
   \<and> snd (IsZero f) = f"
proof -
  have k: "name (factory m p c) = kind_of c"
    by (cases c)
      (simp_all add: NewLowPass_def NewHighPass_def NewAllPass_def NewBandPass_def
        NewBandReject_def NewLowShelf_def NewHighShelf_def NewPeaking_def Let_def)
  have u: "kind_of c \<noteq> Undefined"
    by (cases c) simp_all
  show ?thesis
    using k u
    by (simp add: Name_def IsZero_def zero_Filter_def NewLowPass_def NewHighPass_def
        NewAllPass_def NewBandPass_def NewBandReject_def NewLowShelf_def NewHighShelf_def
        NewPeaking_def Let_def)
qed

subsection \<open>A frequency of zero\<close>

lemma w0_zero_frequency:
  "zero_or_NaN (fdiv (fmul x (Zero s)) sampleRate)"
  by (rule fdiv_zero_left, rule fmul_zero_right) simp

lemma Sin_Zero: "math_special_cases m \<Longrightarrow> math_Sin m (Zero t) = Zero t"
  by (cases t) (simp_all add: math_special_cases_def)

lemma Sinh_NaN: "math_special_cases m \<Longrightarrow> math_Sinh m NaN = NaN"
  by (simp add: math_special_cases_def)

lemma quotient_NaN:
  assumes "math_special_cases m" and "zero_or_NaN w0"
  shows "fdiv (fmul x w0) (math_Sin m w0) = NaN"
proof (cases w0)
  case NaN
  then show ?thesis by simp
next
  case (Zero t)
  have "zero_or_NaN (fmul x (Zero t))" by (rule fmul_zero_right) simp
  then have "fdiv (fmul x (Zero t)) (Zero t) = NaN" by (rule fdiv_zero_zero)
  with Zero show ?thesis by (simp add: Sin_Zero [OF assms(1)])
next
  case (Infinity b)
  with assms(2) show ?thesis by simp
next
  case (Finite r)
  with assms(2) show ?thesis by simp
qed

lemma alpha_NaN:
  assumes "math_special_cases m" and "zero_or_NaN w0"
  shows "fmul (math_Sin m w0) (math_Sinh m (fdiv (fmul x w0) (math_Sin m w0))) = NaN"
  by (simp add: quotient_NaN [OF assms] Sinh_NaN [OF assms(1)])

text \<open>
  C9. NewBandPass with frequency 0: w0 is a zero or a NaN whatever p and sampleRate are,
  the quotient under sinh is 0/0 or has a NaN operand, and so alpha is NaN, and with it
  a0, a2, b0 and b2: none of the four is a finite number. With the default p and a
  positive finite sampleRate, w0 is +0, sin(w0) is +0 and the quotient by sin(w0) is NaN.
\<close>

theorem BandPass_frequency_zero:
  assumes "math_special_cases m"
  shows "(let f = NewBandPass m p sampleRate (Zero s) width
          in isNaN (a0 f) \<and> isNaN (a2 f) \<and> isNaN (b0 f) \<and> isNaN (b2 f))
       \<and> (0 < r \<longrightarrow>
           (let w0 = fdiv (fmul (fmul (f64 2) Pi) (Zero False)) (Finite r)
            in w0 = Zero False \<and> math_Sin m w0 = Zero False
             \<and> fdiv (fmul (fmul (fdiv (math_Log m (f64 2)) (f64 2)) width) w0)
                     (math_Sin m w0) = NaN))"
proof -
  have "fmul (math_Sin m (fdiv (fmul (fmul (f64 2) p) (Zero s)) sampleRate))
          (math_Sinh m (fdiv (fmul (fmul (fdiv (math_Log m (f64 2)) (f64 2)) width)
             (fdiv (fmul (fmul (f64 2) p) (Zero s)) sampleRate))
             (math_Sin m (fdiv (fmul (fmul (f64 2) p) (Zero s)) sampleRate)))) = NaN"
    using assms w0_zero_frequency by (rule alpha_NaN)
  then have A: "let f = NewBandPass m p sampleRate (Zero s) width
          in isNaN (a0 f) \<and> isNaN (a2 f) \<and> isNaN (b0 f) \<and> isNaN (b2 f)"
    by (simp add: NewBandPass_def Let_def isNaN_def)
  have w: "0 < r \<Longrightarrow> fdiv (fmul (fmul (f64 2) Pi) (Zero False)) (Finite r) = Zero False"
    by (simp add: two_Pi)
  have "fdiv (fmul (fmul (fdiv (math_Log m (f64 2)) (f64 2)) width) (Zero False))
          (math_Sin m (Zero False)) = NaN"
    using assms by (rule quotient_NaN) simp
  with w have B: "0 < r \<longrightarrow>
           (let w0 = fdiv (fmul (fmul (f64 2) Pi) (Zero False)) (Finite r)
            in w0 = Zero False \<and> math_Sin m w0 = Zero False
             \<and> fdiv (fmul (fmul (fdiv (math_Log m (f64 2)) (f64 2)) width) w0)
                     (math_Sin m w0) = NaN)"
    by (simp add: Sin_Zero [OF assms] Let_def)
  from A B show ?thesis by simp
qed

theorem BandPass_frequency_zero_witness:
  "math_special_cases toy_math
   \<and> isNaN (a0 (NewBandPass toy_math Pi (Finite 44100) (Zero False) (Finite 1)))
   \<and> isNaN (a2 (NewBandPass toy_math Pi (Finite 44100) (Zero False) (Finite 1)))
   \<and> isNaN (b0 (NewBandPass toy_math Pi (Finite 44100) (Zero False) (Finite 1)))
   \<and> isNaN (b2 (NewBandPass toy_math Pi (Finite 44100) (Zero False) (Finite 1)))
   \<and> fdiv (fmul (fmul (f64 2) Pi) (Zero False)) (Finite 44100) = Zero False"
proof -
  have h: "math_special_cases toy_math"
    by (simp add: math_special_cases_def toy_math_def)
  show ?thesis
    using h BandPass_frequency_zero [OF h, of Pi "Finite 44100" False "Finite 1" 44100]
    by (simp add: Let_def)
qed

subsection \<open>The package variable and the allocated Filters\<close>

lemma pkg_heap_update: "s\<lparr>heap := h\<rparr> = \<lparr>var_p = var_p s, heap = h\<rparr>"
  for s :: pkg
  by (cases s) simp

text \<open>
  C6. The variable p starts as the float64 of the literal Pi. After SetPi(v) it holds v,
  and neither a constructor nor a method changes the variable; SetPi changes no
  allocated Filter, and Apply through a pointer returns and stores after SetPi what it
  does without it. UnsetPi puts the float64 of the literal Pi back and changes no
  allocated Filter either. Each of the eight constructors, called after SetPi(v),
  allocates a Filter whose w0 is 2*v*frequency/sampleRate and whose six coefficients are
  its formulas on that w0; called after UnsetPi, the same with the float64 of Pi for v.
\<close>

theorem SetPi_frame:
  "var_p init_pkg = Pi
   \<and> UnsetPi (SetPi val init_pkg) = init_pkg
   \<and> var_p (SetPi val s) = val
   \<and> heap (SetPi val s) = heap s
   \<and> new m c (SetPi val s)
       = (length (heap s), \<lparr>var_p = val, heap = heap s @ [factory m val c]\<rparr>)
   \<and> var_p (snd (new m c s)) = var_p s
   \<and> map_option (\<lambda>(r, s'). var_p s') (call_method mth ptr s)
       = (if ptr < length (heap s) then Some (var_p s) else None)
   \<and> call_method (\<lambda>f. Apply f input) ptr (SetPi val s)
       = map_option (\<lambda>(y, s'). (y, SetPi val s')) (call_method (\<lambda>f. Apply f input) ptr s)
   \<and> var_p (UnsetPi s) = Pi
   \<and> heap (UnsetPi s) = heap s
   \<and> new m c (UnsetPi s)
       = (length (heap s), \<lparr>var_p = Pi, heap = heap s @ [factory m Pi c]\<rparr>)
   \<and> heap (snd (new m (CallLowPass sampleRate frequency q) (SetPi val s))) ! length (heap s) =
       (let w0 = fdiv (fmul (fmul (f64 2) val) frequency) sampleRate;
            alpha = fdiv (math_Sin m w0) (fmul (f64 2) q)
        in \<lparr>name = LowPass,
           in1 = Zero False, in2 = Zero False, out1 = Zero False, out2 = Zero False,
           a0 = fadd (f64 1) alpha,
           a1 = fmul (f64 (- 2)) (math_Cos m w0),
           a2 = fsub (f64 1) alpha,
           b0 = fdiv (fsub (f64 1) (math_Cos m w0)) (f64 2),
           b1 = fsub (f64 1) (math_Cos m w0),
           b2 = fdiv (fsub (f64 1) (math_Cos m w0)) (f64 2)\<rparr>)
   \<and> heap (snd (new m (CallHighPass sampleRate frequency q) (SetPi val s))) ! length (heap s) =
       (let w0 = fdiv (fmul (fmul (f64 2) val) frequency) sampleRate;
            alpha = fdiv (math_Sin m w0) (fmul (f64 2) q)
        in \<lparr>name = HighPass,
           in1 = Zero False, in2 = Zero False, out1 = Zero False, out2 = Zero False,
           a0 = fadd (f64 1) alpha,
           a1 = fmul (f64 (- 2)) (math_Cos m w0),
           a2 = fsub (f64 1) alpha,
           b0 = fdiv (fadd (f64 1) (math_Cos m w0)) (f64 2),
           b1 = fmul (f64 (- 1)) (fadd (f64 1) (math_Cos m w0)),
           b2 = fdiv (fadd (f64 1) (math_Cos m w0)) (f64 2)\<rparr>)
   \<and> heap (snd (new m (CallAllPass sampleRate frequency q) (SetPi val s))) ! length (heap s) =
       (let w0 = fdiv (fmul (fmul (f64 2) val) frequency) sampleRate;
            alpha = fdiv (math_Sin m w0) (fmul (f64 2) q)
        in \<lparr>name = AllPass,
           in1 = Zero False, in2 = Zero False, out1 = Zero False, out2 = Zero False,
           a0 = fadd (f64 1) alpha,
           a1 = fmul (f64 (- 2)) (math_Cos m w0),
           a2 = fsub (f64 1) alpha,
           b0 = fsub (f64 1) alpha,
           b1 = fmul (f64 (- 2)) (math_Cos m w0),
           b2 = fadd (f64 1) alpha\<rparr>)
   \<and> heap (snd (new m (CallBandPass sampleRate frequency width) (SetPi val s))) ! length (heap s) =
       (let w0 = fdiv (fmul (fmul (f64 2) val) frequency) sampleRate;
            alpha = fmul (math_Sin m w0)
                      (math_Sinh m (fdiv (fmul (fmul (fdiv (math_Log m (f64 2)) (f64 2)) width) w0)
                                         (math_Sin m w0)))
        in \<lparr>name = BandPass,
           in1 = Zero False, in2 = Zero False, out1 = Zero False, out2 = Zero False,
           a0 = fadd (f64 1) alpha,
           a1 = fmul (f64 (- 2)) (math_Cos m w0),
           a2 = fsub (f64 1) alpha,
           b0 = alpha,
           b1 = f64 0,
           b2 = fmul (f64 (- 1)) alpha\<rparr>)
   \<and> heap (snd (new m (CallBandReject sampleRate frequency width) (SetPi val s))) ! length (heap s) =
       (let w0 = fdiv (fmul (fmul (f64 2) val) frequency) sampleRate;
            alpha = fmul (math_Sin m w0)
                      (math_Sinh m (fdiv (fmul (fmul (fdiv (math_Log m (f64 2)) (f64 2)) width) w0)
                                         (math_Sin m w0)))
        in \<lparr>name = BandReject,
           in1 = Zero False, in2 = Zero False, out1 = Zero False, out2 = Zero False,
           a0 = fadd (f64 1) alpha,
           a1 = fmul (f64 (- 2)) (math_Cos m w0),
           a2 = fsub (f64 1) alpha,
           b0 = f64 1,
           b1 = fmul (f64 (- 2)) (math_Cos m w0),
           b2 = f64 1\<rparr>)
   \<and> heap (snd (new m (CallLowShelf sampleRate frequency q gain) (SetPi val s))) ! length (heap s) =
       (let w0 = fdiv (fmul (fmul (f64 2) val) frequency) sampleRate;
            a = math_Pow m (f64 10) (fdiv gain (f64 40));
            beta = fdiv (math_Sqrt m a) q
        in \<lparr>name = LowShelf,
           in1 = Zero False, in2 = Zero False, out1 = Zero False, out2 = Zero False,
           a0 = fadd (fadd (fadd a (f64 1)) (fmul (fsub a (f64 1)) (math_Cos m w0))) (fmul beta (math_Sin m w0)),
           a1 = fmul (f64 (- 2)) (fadd (fsub a (f64 1)) (fmul (fadd a (f64 1)) (math_Cos m w0))),
           a2 = fsub (fadd (fadd a (f64 1)) (fmul (fsub a (f64 1)) (math_Cos m w0))) (fmul beta (math_Sin m w0)),
           b0 = fmul a (fadd (fsub (fadd a (f64 1)) (fmul (fsub a (f64 1)) (math_Cos m w0))) (fmul beta (math_Sin m w0))),
           b1 = fmul (fmul (f64 2) a) (fsub (fsub a (f64 1)) (fmul (fadd a (f64 1)) (math_Cos m w0))),
           b2 = fmul a (fsub (fsub (fadd a (f64 1)) (fmul (fsub a (f64 1)) (math_Cos m w0))) (fmul beta (math_Sin m w0)))\<rparr>)
   \<and> heap (snd (new m (CallHighShelf sampleRate frequency q gain) (SetPi val s))) ! length (heap s) =
       (let w0 = fdiv (fmul (fmul (f64 2) val) frequency) sampleRate;
            a = math_Pow m (f64 10) (fdiv gain (f64 40));
            beta = fdiv (math_Sqrt m a) q
        in \<lparr>name = HighShelf,
           in1 = Zero False, in2 = Zero False, out1 = Zero False, out2 = Zero False,
           a0 = fadd (fsub (fadd a (f64 1)) (fmul (fsub a (f64 1)) (math_Cos m w0))) (fmul beta (math_Sin m w0)),
           a1 = fmul (f64 2) (fsub (fsub a (f64 1)) (fmul (fadd a (f64 1)) (math_Cos m w0))),
           a2 = fsub (fsub (fadd a (f64 1)) (fmul (fsub a (f64 1)) (math_Cos m w0))) (fmul beta (math_Sin m w0)),
           b0 = fmul a (fadd (fadd (fadd a (f64 1)) (fmul (fsub a (f64 1)) (math_Cos m w0))) (fmul beta (math_Sin m w0))),
           b1 = fmul (fmul (f64 (- 2)) a) (fadd (fsub a (f64 1)) (fmul (fadd a (f64 1)) (math_Cos m w0))),
           b2 = fmul a (fsub (fadd (fadd a (f64 1)) (fmul (fsub a (f64 1)) (math_Cos m w0))) (fmul beta (math_Sin m w0)))\<rparr>)
   \<and> heap (snd (new m (CallPeaking sampleRate frequency width gain) (SetPi val s))) ! length (heap s) =
       (let w0 = fdiv (fmul (fmul (f64 2) val) frequency) sampleRate;
            alpha = fmul (math_Sin m w0)
                      (math_Sinh m (fdiv (fmul (fmul (fdiv (math_Log m (f64 2)) (f64 2)) width) w0)
                                         (math_Sin m w0)));
            a = math_Pow m (f64 10) (fdiv gain (f64 40))
        in \<lparr>name = Peaking,
           in1 = Zero False, in2 = Zero False, out1 = Zero False, out2 = Zero False,
           a0 = fadd (f64 1) (fdiv alpha a),
           a1 = fmul (f64 (- 2)) (math_Cos m w0),
           a2 = fsub (f64 1) (fdiv alpha a),
           b0 = fadd (f64 1) (fmul alpha a),
           b1 = fmul (f64 (- 2)) (math_Cos m w0),
           b2 = fsub (f64 1) (fmul alpha a)\<rparr>)
   \<and> heap (snd (new m (CallLowPass sampleRate frequency q) (UnsetPi s))) ! length (heap s) =
       (let w0 = fdiv (fmul (fmul (f64 2) Pi) frequency) sampleRate;
            alpha = fdiv (math_Sin m w0) (fmul (f64 2) q)
        in \<lparr>name = LowPass,
           in1 = Zero False, in2 = Zero False, out1 = Zero False, out2 = Zero False,
           a0 = fadd (f64 1) alpha,
           a1 = fmul (f64 (- 2)) (math_Cos m w0),
           a2 = fsub (f64 1) alpha,
           b0 = fdiv (fsub (f64 1) (math_Cos m w0)) (f64 2),
           b1 = fsub (f64 1) (math_Cos m w0),
           b2 = fdiv (fsub (f64 1) (math_Cos m w0)) (f64 2)\<rparr>)
   \<and> heap (snd (new m (CallHighPass sampleRate frequency q) (UnsetPi s))) ! length (heap s) =
       (let w0 = fdiv (fmul (fmul (f64 2) Pi) frequency) sampleRate;
            alpha = fdiv (math_Sin m w0) (fmul (f64 2) q)
        in \<lparr>name = HighPass,
           in1 = Zero False, in2 = Zero False, out1 = Zero False, out2 = Zero False,
           a0 = fadd (f64 1) alpha,
           a1 = fmul (f64 (- 2)) (math_Cos m w0),
           a2 = fsub (f64 1) alpha,
           b0 = fdiv (fadd (f64 1) (math_Cos m w0)) (f64 2),
           b1 = fmul (f64 (- 1)) (fadd (f64 1) (math_Cos m w0)),
           b2 = fdiv (fadd (f64 1) (math_Cos m w0)) (f64 2)\<rparr>)
   \<and> heap (snd (new m (CallAllPass sampleRate frequency q) (UnsetPi s))) ! length (heap s) =
       (let w0 = fdiv (fmul (fmul (f64 2) Pi) frequency) sampleRate;
            alpha = fdiv (math_Sin m w0) (fmul (f64 2) q)
        in \<lparr>name = AllPass,
           in1 = Zero False, in2 = Zero False, out1 = Zero False, out2 = Zero False,
           a0 = fadd (f64 1) alpha,
           a1 = fmul (f64 (- 2)) (math_Cos m w0),
           a2 = fsub (f64 1) alpha,
           b0 = fsub (f64 1) alpha,
           b1 = fmul (f64 (- 2)) (math_Cos m w0),
           b2 = fadd (f64 1) alpha\<rparr>)
   \<and> heap (snd (new m (CallBandPass sampleRate frequency width) (UnsetPi s))) ! length (heap s) =
       (let w0 = fdiv (fmul (fmul (f64 2) Pi) frequency) sampleRate;
            alpha = fmul (math_Sin m w0)
                      (math_Sinh m (fdiv (fmul (fmul (fdiv (math_Log m (f64 2)) (f64 2)) width) w0)
                                         (math_Sin m w0)))
        in \<lparr>name = BandPass,
           in1 = Zero False, in2 = Zero False, out1 = Zero False, out2 = Zero False,
           a0 = fadd (f64 1) alpha,
           a1 = fmul (f64 (- 2)) (math_Cos m w0),
           a2 = fsub (f64 1) alpha,
           b0 = alpha,
           b1 = f64 0,
           b2 = fmul (f64 (- 1)) alpha\<rparr>)
   \<and> heap (snd (new m (CallBandReject sampleRate frequency width) (UnsetPi s))) ! length (heap s) =
       (let w0 = fdiv (fmul (fmul (f64 2) Pi) frequency) sampleRate;
            alpha = fmul (math_Sin m w0)
                      (math_Sinh m (fdiv (fmul (fmul (fdiv (math_Log m (f64 2)) (f64 2)) width) w0)
                                         (math_Sin m w0)))
        in \<lparr>name = BandReject,
           in1 = Zero False, in2 = Zero False, out1 = Zero False, out2 = Zero False,
           a0 = fadd (f64 1) alpha,
           a1 = fmul (f64 (- 2)) (math_Cos m w0),
           a2 = fsub (f64 1) alpha,
           b0 = f64 1,
           b1 = fmul (f64 (- 2)) (math_Cos m w0),
           b2 = f64 1\<rparr>)
   \<and> heap (snd (new m (CallLowShelf sampleRate frequency q gain) (UnsetPi s))) ! length (heap s) =
       (let w0 = fdiv (fmul (fmul (f64 2) Pi) frequency) sampleRate;
            a = math_Pow m (f64 10) (fdiv gain (f64 40));
            beta = fdiv (math_Sqrt m a) q
        in \<lparr>name = LowShelf,
           in1 = Zero False, in2 = Zero False, out1 = Zero False, out2 = Zero False,
           a0 = fadd (fadd (fadd a (f64 1)) (fmul (fsub a (f64 1)) (math_Cos m w0))) (fmul beta (math_Sin m w0)),
           a1 = fmul (f64 (- 2)) (fadd (fsub a (f64 1)) (fmul (fadd a (f64 1)) (math_Cos m w0))),
           a2 = fsub (fadd (fadd a (f64 1)) (fmul (fsub a (f64 1)) (math_Cos m w0))) (fmul beta (math_Sin m w0)),
           b0 = fmul a (fadd (fsub (fadd a (f64 1)) (fmul (fsub a (f64 1)) (math_Cos m w0))) (fmul beta (math_Sin m w0))),
           b1 = fmul (fmul (f64 2) a) (fsub (fsub a (f64 1)) (fmul (fadd a (f64 1)) (math_Cos m w0))),
           b2 = fmul a (fsub (fsub (fadd a (f64 1)) (fmul (fsub a (f64 1)) (math_Cos m w0))) (fmul beta (math_Sin m w0)))\<rparr>)
   \<and> heap (snd (new m (CallHighShelf sampleRate frequency q gain) (UnsetPi s))) ! length (heap s) =
       (let w0 = fdiv (fmul (fmul (f64 2) Pi) frequency) sampleRate;
            a = math_Pow m (f64 10) (fdiv gain (f64 40));
            beta = fdiv (math_Sqrt m a) q
        in \<lparr>name = HighShelf,
           in1 = Zero False, in2 = Zero False, out1 = Zero False, out2 = Zero False,
           a0 = fadd (fsub (fadd a (f64 1)) (fmul (fsub a (f64 1)) (math_Cos m w0))) (fmul beta (math_Sin m w0)),
           a1 = fmul (f64 2) (fsub (fsub a (f64 1)) (fmul (fadd a (f64 1)) (math_Cos m w0))),
           a2 = fsub (fsub (fadd a (f64 1)) (fmul (fsub a (f64 1)) (math_Cos m w0))) (fmul beta (math_Sin m w0)),
           b0 = fmul a (fadd (fadd (fadd a (f64 1)) (fmul (fsub a (f64 1)) (math_Cos m w0))) (fmul beta (math_Sin m w0))),
           b1 = fmul (fmul (f64 (- 2)) a) (fadd (fsub a (f64 1)) (fmul (fadd a (f64 1)) (math_Cos m w0))),
           b2 = fmul a (fsub (fadd (fadd a (f64 1)) (fmul (fsub a (f64 1)) (math_Cos m w0))) (fmul beta (math_Sin m w0)))\<rparr>)
   \<and> heap (snd (new m (CallPeaking sampleRate frequency width gain) (UnsetPi s))) ! length (heap s) =
       (let w0 = fdiv (fmul (fmul (f64 2) Pi) frequency) sampleRate;
            alpha = fmul (math_Sin m w0)
                      (math_Sinh m (fdiv (fmul (fmul (fdiv (math_Log m (f64 2)) (f64 2)) width) w0)
                                         (math_Sin m w0)));
            a = math_Pow m (f64 10) (fdiv gain (f64 40))
        in \<lparr>name = Peaking,
           in1 = Zero False, in2 = Zero False, out1 = Zero False, out2 = Zero False,
           a0 = fadd (f64 1) (fdiv alpha a),
           a1 = fmul (f64 (- 2)) (math_Cos m w0),
           a2 = fsub (f64 1) (fdiv alpha a),
           b0 = fadd (f64 1) (fmul alpha a),
           b1 = fmul (f64 (- 2)) (math_Cos m w0),
           b2 = fsub (f64 1) (fmul alpha a)\<rparr>)"
  by (simp add: init_pkg_def SetPi_def UnsetPi_def new_def call_method_def pkg_heap_update
      NewLowPass_def NewHighPass_def NewAllPass_def NewBandPass_def NewBandReject_def
      NewLowShelf_def NewHighShelf_def NewPeaking_def Let_def
      split: prod.splits)

text \<open>
  C10. Two calls of one constructor with the same arguments, nothing having set the
  variable p in between, return two different pointers to Filters that are equal field
  by field: the same kind, the same six coefficients, and +0 in in1, in2, out1 and out2.
  Apply through one pointer works on its own Filter and leaves the other Filter as it
  was.
\<close>

theorem construction_twice:
  "(let (q1, s1) = new m c s; (q2, s2) = new m c s1
    in q1 \<noteq> q2 \<and> q1 < length (heap s2) \<and> q2 < length (heap s2)
     \<and> heap s2 ! q1 = factory m (var_p s) c
     \<and> heap s2 ! q2 = factory m (var_p s) c
     \<and> name (heap s2 ! q1) = name (heap s2 ! q2)
     \<and> a0 (heap s2 ! q1) = a0 (heap s2 ! q2) \<and> a1 (heap s2 ! q1) = a1 (heap s2 ! q2)
     \<and> a2 (heap s2 ! q1) = a2 (heap s2 ! q2) \<and> b0 (heap s2 ! q1) = b0 (heap s2 ! q2)
     \<and> b1 (heap s2 ! q1) = b1 (heap s2 ! q2) \<and> b2 (heap s2 ! q1) = b2 (heap s2 ! q2)
     \<and> in1 (heap s2 ! q1) = Zero False \<and> in2 (heap s2 ! q1) = Zero False
     \<and> out1 (heap s2 ! q1) = Zero False \<and> out2 (heap s2 ! q1) = Zero False
     \<and> in1 (heap s2 ! q2) = Zero False \<and> in2 (heap s2 ! q2) = Zero False
     \<and> out1 (heap s2 ! q2) = Zero False \<and> out2 (heap s2 ! q2) = Zero False
     \<and> (case call_method (\<lambda>f. Apply f input) q1 s2 of
          None \<Rightarrow> False
        | Some (y, s3) \<Rightarrow>
            (y, heap s3 ! q1) = Apply (heap s2 ! q1) input \<and> heap s3 ! q2 = heap s2 ! q2)
     \<and> (case call_method (\<lambda>f. Apply f input) q2 s2 of
          None \<Rightarrow> False
        | Some (y, s3) \<Rightarrow>
            (y, heap s3 ! q2) = Apply (heap s2 ! q2) input \<and> heap s3 ! q1 = heap s2 ! q1))"
  using factory_history [of m "var_p s" c]
  by (simp add: new_def call_method_def nth_append split: prod.splits)

end
